theory Spec2Isabelle
  imports Main "HOL-Library.Word"
begin

unbundle bit_operations_syntax

section \<open>Machine integers and byte order\<close>

text \<open>
  The program is \<^verbatim>\<open>ipcalc.c\<close>. Its \<^verbatim>\<open>uint32_t\<close> values are \<open>32 word\<close>, its
  \<^verbatim>\<open>uint16_t\<close> values \<open>16 word\<close> and the bytes of a \<^verbatim>\<open>struct in6_addr\<close> are
  \<open>8 word\<close>. A C \<^verbatim>\<open>int\<close> that only counts or carries a prefix length is an \<open>int\<close>:
  it stays far inside the 32-bit range.

  A \<^verbatim>\<open>struct in_addr\<close> has the single field \<^verbatim>\<open>s_addr\<close>, a \<^verbatim>\<open>uint32_t\<close> in network
  byte order; the type \<open>in_addr\<close> is that field. \<^verbatim>\<open>htonl\<close> and \<^verbatim>\<open>ntohl\<close> belong to the C
  library: on a little-endian host they reverse the four bytes, on a big-endian host
  they are the identity. The flag \<open>le\<close> (the host is little-endian) is passed to every
  function that depends on them, and the theorems hold for both byte orders.
\<close>

type_synonym u8 = "8 word"
type_synonym u16 = "16 word"
type_synonym u32 = "32 word"
type_synonym in_addr = "32 word"

definition bswap32 :: "u32 \<Rightarrow> u32" where
  "bswap32 x =
     push_bit 24 (take_bit 8 x) OR push_bit 16 (take_bit 8 (drop_bit 8 x)) OR
     push_bit 8 (take_bit 8 (drop_bit 16 x)) OR drop_bit 24 x"

definition htonl :: "bool \<Rightarrow> u32 \<Rightarrow> u32" where
  "htonl le x = (if le then bswap32 x else x)"

definition ntohl :: "bool \<Rightarrow> u32 \<Rightarrow> u32" where
  "ntohl le x = (if le then bswap32 x else x)"

section \<open>Prefix length and netmask (IPv4)\<close>

text \<open>
  \<^verbatim>\<open>prefix2mask\<close>: \<^verbatim>\<open>htonl(~((1 << (32 - prefix)) - 1))\<close> for a nonzero prefix and
  \<^verbatim>\<open>htonl(0)\<close> for prefix 0. The shift is done on a 32-bit \<^verbatim>\<open>int\<close>; the model takes the
  two's complement result the usual compilers produce (for prefix 1 the source
  computes \<^verbatim>\<open>(1 << 31) - 1\<close>, which wraps to \<^verbatim>\<open>0x7fffffff\<close>). The callers pass prefixes
  from 0 to 32 only; outside that range the C shift count is out of bounds and the
  model's value there is not used by any theorem.
\<close>

definition prefix2mask :: "bool \<Rightarrow> int \<Rightarrow> in_addr" where
  "prefix2mask le prefix =
     (if prefix \<noteq> 0 then htonl le (NOT (push_bit (nat (32 - prefix)) 1 - 1))
      else htonl le 0)"

definition calc_broadcast :: "bool \<Rightarrow> in_addr \<Rightarrow> int \<Rightarrow> in_addr" where
  "calc_broadcast le addr prefix =
     (let mask = prefix2mask le prefix in (addr AND mask) OR NOT mask)"

definition calc_network :: "bool \<Rightarrow> in_addr \<Rightarrow> int \<Rightarrow> in_addr" where
  "calc_network le addr prefix =
     (let mask = prefix2mask le prefix in addr AND mask)"

text \<open>
  \<^verbatim>\<open>bit_count\<close>: the loop \<^verbatim>\<open>while (i > 0)\<close> reads the bits of \<open>i\<close> from the least
  significant one, with the counter \<open>c\<close> and the flag \<open>seen_one\<close>; a 0 bit met after
  a 1 bit while higher bits remain returns \<open>-1\<close>, and so does a count of 0.
\<close>

function bit_count_loop :: "u32 \<Rightarrow> int \<Rightarrow> bool \<Rightarrow> int" where
  "bit_count_loop i c seen_one =
     (if i > 0 then
        (if i AND 1 \<noteq> 0 then bit_count_loop (drop_bit 1 i) (c + 1) True
         else if seen_one then - 1
         else bit_count_loop (drop_bit 1 i) c seen_one)
      else if c = 0 then - 1 else c)"
  by pat_completeness auto
termination
proof (relation "measure (\<lambda>(i, c, s). unat i)")
  show "wf (measure (\<lambda>(i, c, s). unat i))" by simp
next
  fix i :: u32 and c :: int and seen_one :: bool
  assume "0 < i"
  then have "unat i \<noteq> 0" by (simp add: unat_gt_0 word_gt_0)
  then have "unat i div 2 < unat i" by simp
  then show "((drop_bit 1 i, c + 1, True), (i, c, seen_one)) \<in> measure (\<lambda>(i, c, s). unat i)"
    by (simp add: drop_bit_eq_div unat_div)
next
  fix i :: u32 and c :: int and seen_one :: bool
  assume "0 < i"
  then have "unat i \<noteq> 0" by (simp add: unat_gt_0 word_gt_0)
  then have "unat i div 2 < unat i" by simp
  then show "((drop_bit 1 i, c, seen_one), (i, c, seen_one)) \<in> measure (\<lambda>(i, c, s). unat i)"
    by (simp add: drop_bit_eq_div unat_div)
qed

definition bit_count :: "u32 \<Rightarrow> int" where
  "bit_count i = bit_count_loop i 0 False"

text \<open>
  \<^verbatim>\<open>ipv4_mask_to_int\<close>: the dotted netmask is parsed by the C library's
  \<^verbatim>\<open>inet_pton(AF_INET, ...)\<close>, here the parameter \<open>inet_pton\<close> (\<open>None\<close> when it returns 0),
  and the parsed value goes through \<^verbatim>\<open>ntohl\<close> into \<open>bit_count\<close>.
\<close>

definition ipv4_mask_to_int :: "bool \<Rightarrow> (string \<Rightarrow> in_addr option) \<Rightarrow> string \<Rightarrow> int" where
  "ipv4_mask_to_int le inet_pton str =
     (case inet_pton str of
        None \<Rightarrow> - 1
      | Some a \<Rightarrow> bit_count (ntohl le a))"

section \<open>The result record and the failures\<close>

text \<open>
  \<^verbatim>\<open>ip_info_st\<close>: every \<^verbatim>\<open>char *\<close> field is an optional string (\<open>None\<close> for the \<^verbatim>\<open>NULL\<close>
  left by the initial \<^verbatim>\<open>memset\<close>); the \<^verbatim>\<open>unsigned prefix\<close> is a \<open>nat\<close>.
\<close>

record ip_info_st =
  expanded_ip :: "string option"
  expanded_network :: "string option"
  network :: "string option"
  broadcast :: "string option"
  netmask :: "string option"
  hostname :: "string option"
  prefix :: nat
  hostmin :: "string option"
  hostmax :: "string option"
  type :: "string option"

definition info_zero :: ip_info_st where
  "info_zero =
     \<lparr>expanded_ip = None, expanded_network = None, network = None, broadcast = None,
      netmask = None, hostname = None, prefix = 0, hostmin = None, hostmax = None,
      type = None\<rparr>"

text \<open>
  \<^verbatim>\<open>get_ipv4_info\<close> and \<^verbatim>\<open>get_ipv6_info\<close> return \<open>-1\<close> on failure and \<open>0\<close> on success.
  In the model a failure is \<open>Inl\<close> of the diagnostic the source prints at that return
  (the flag \<^verbatim>\<open>beSilent\<close> only suppresses the printing and is left out), and a success
  is \<open>Inr\<close> of the filled record.
\<close>

datatype diag =
  Bad_IPv4_address string
  | Bad_IPv4_prefix int
  | Bad_IPv6_address string
  | Bad_IPv6_prefix int
  | Error_converting_IPv6_prefix int
  | Cannot_find_hostname string

section \<open>Host names\<close>

text \<open>
  \<^verbatim>\<open>get_hostname\<close> asks the resolver (\<^verbatim>\<open>gethostbyaddr\<close>, a parameter here) and turns the
  name it gets to lower case with \<^verbatim>\<open>tolower\<close>.
\<close>

type_synonym in6_addr = "u8 list"

datatype sockaddr = AF_INET in_addr | AF_INET6 in6_addr

definition tolower :: "char \<Rightarrow> char" where
  "tolower c =
     (if (of_char (CHR ''A'') :: nat) \<le> of_char c \<and> (of_char c :: nat) \<le> of_char (CHR ''Z'')
      then char_of ((of_char c :: nat) + 32) else c)"

definition get_hostname :: "(sockaddr \<Rightarrow> string option) \<Rightarrow> sockaddr \<Rightarrow> string option" where
  "get_hostname gethostbyaddr addr =
     (case gethostbyaddr addr of
        None \<Rightarrow> None
      | Some h_name \<Rightarrow> Some (map tolower h_name))"

section \<open>Address space of an IPv4 network\<close>

definition ipv4_net_to_type :: "bool \<Rightarrow> in_addr \<Rightarrow> string" where
  "ipv4_net_to_type le net =
     (let byte1 = drop_bit 24 (ntohl le net) AND 0xff;
          byte2 = drop_bit 16 (ntohl le net) AND 0xff;
          byte3 = drop_bit 8 (ntohl le net) AND 0xff;
          byte4 = ntohl le net AND 0xff
      in if byte1 = 0 then ''This host on this network''
         else if byte1 = 10 then ''Private Use''
         else if byte1 = 100 \<and> byte2 AND 0xc0 = 64 then ''Shared Address Space''
         else if byte1 = 127 then ''Loopback''
         else if byte1 = 169 \<and> byte2 = 254 then ''Link Local''
         else if byte1 = 172 \<and> byte2 AND 0xf0 = 16 then ''Private Use''
         else if byte1 = 192 \<and> byte2 = 0 \<and> byte3 = 0 then ''IETF Protocol Assignments''
         else if byte1 = 192 \<and> byte2 = 2 \<and> byte3 = 0 then ''Documentation (TEST-NET-1)''
         else if byte1 = 192 \<and> byte2 = 51 \<and> byte3 = 100 then ''Documentation (TEST-NET-2)''
         else if byte1 = 203 \<and> byte2 = 0 \<and> byte3 = 113 then ''Documentation (TEST-NET-3)''
         else if byte1 = 192 \<and> byte2 = 88 \<and> byte3 = 99 then ''6 to 4 Relay Anycast (Deprecated)''
         else if byte1 = 192 \<and> byte2 = 52 \<and> byte3 = 193 then ''AMT''
         else if byte1 = 192 \<and> byte2 = 168 then ''Private Use''
         else if byte1 = 255 \<and> byte2 = 255 \<and> byte3 = 255 \<and> byte4 = 255 then ''Limited Broadcast''
         else if byte1 = 192 \<and> byte2 AND 0xfe = 18 then ''Private Use''
         else if byte1 \<ge> 224 \<and> byte1 \<le> 239 then ''Multicast''
         else if byte1 AND 0xf0 = 240 then ''Reserved''
         else ''Internet or Reserved for Future use'')"

section \<open>IPv4 information\<close>

text \<open>
  The CIDR shorthand (\<^verbatim>\<open>172/8\<close>). A C string is the list of its characters up to the
  terminating NUL. \<^verbatim>\<open>strchr\<close> gives the rest of the string from the first occurrence
  of the character, or \<^verbatim>\<open>NULL\<close>. The first loop of \<^verbatim>\<open>get_ipv4_info\<close> starts
  with \<open>i = 3\<close> and steps over one dot per round, leaving the loop when no dot is left;
  \<open>cidr_dots_loop\<close> returns the \<open>i\<close> it ends with. The second loop appends \<^verbatim>\<open>".0"\<close> to
  \<^verbatim>\<open>ipStr\<close> while \<open>i > 0\<close>.
\<close>

definition strchr :: "string \<Rightarrow> char \<Rightarrow> string option" where
  "strchr s c =
     (case dropWhile (\<lambda>x. x \<noteq> c) s of
        [] \<Rightarrow> None
      | x # r \<Rightarrow> Some (x # r))"

fun cidr_dots_loop :: "nat \<Rightarrow> string \<Rightarrow> nat" where
  "cidr_dots_loop 0 tmp = 0"
| "cidr_dots_loop (Suc i) tmp =
     (case strchr tmp (CHR ''.'') of
        None \<Rightarrow> Suc i
      | Some r \<Rightarrow> cidr_dots_loop i (tl r))"

fun cidr_pad_loop :: "nat \<Rightarrow> string \<Rightarrow> string" where
  "cidr_pad_loop 0 ipStr = ipStr"
| "cidr_pad_loop (Suc i) ipStr = cidr_pad_loop i (ipStr @ ''.0'')"

definition cidr_expand :: "string \<Rightarrow> string" where
  "cidr_expand ipStr = cidr_pad_loop (cidr_dots_loop 3 ipStr) ipStr"

text \<open>
  \<^verbatim>\<open>get_ipv4_info\<close>. The parameters \<open>inet_pton\<close> and \<open>inet_ntop\<close> are the C library's parser
  and printer of dotted quads. \<^verbatim>\<open>inet_ntop\<close> cannot fail on a buffer of
  \<^verbatim>\<open>INET_ADDRSTRLEN\<close> bytes, so it is a total function and the branches the source
  takes when it returns \<^verbatim>\<open>NULL\<close> are not in the model; neither is the \<^verbatim>\<open>abort\<close> after a
  failed allocation in \<^verbatim>\<open>asprintf\<close>.
\<close>

definition get_ipv4_info ::
  "bool \<Rightarrow> (string \<Rightarrow> in_addr option) \<Rightarrow> (in_addr \<Rightarrow> string) \<Rightarrow> (sockaddr \<Rightarrow> string option) \<Rightarrow>
   string \<Rightarrow> int \<Rightarrow> bool \<Rightarrow> diag + ip_info_st" where
  "get_ipv4_info le inet_pton inet_ntop gethostbyaddr ipStr0 prefix0 showHostname =
     (let info = info_zero;
          ipStr = (if prefix0 \<ge> 0 then cidr_expand ipStr0 else ipStr0);
          pfx = (if prefix0 \<ge> 0 then prefix0 else 32)
      in case inet_pton ipStr of
           None \<Rightarrow> Inl (Bad_IPv4_address ipStr)
         | Some ip \<Rightarrow>
             if pfx > 32 then Inl (Bad_IPv4_prefix pfx)
             else
               let mask = prefix2mask le pfx;
                   info = info\<lparr>netmask := Some (inet_ntop mask), prefix := nat pfx\<rparr>;
                   bcast = calc_broadcast le ip pfx;
                   info = info\<lparr>broadcast := Some (inet_ntop bcast)\<rparr>;
                   net = calc_network le ip pfx;
                   info = info\<lparr>network := Some (inet_ntop net)\<rparr>;
                   info = info\<lparr>type := Some (ipv4_net_to_type le net)\<rparr>;
                   info =
                     (if pfx < 32 then
                        let minhost = net;
                            minhost = (if pfx \<le> 30 then htonl le (ntohl le minhost OR 1)
                                       else minhost);
                            info = info\<lparr>hostmin := Some (inet_ntop minhost)\<rparr>;
                            maxhost = net;
                            maxhost = maxhost OR NOT mask;
                            maxhost = (if pfx \<le> 30 then htonl le (ntohl le maxhost - 1)
                                       else maxhost)
                        in info\<lparr>hostmax := Some (inet_ntop maxhost)\<rparr>
                      else info\<lparr>hostmin := network info, hostmax := network info\<rparr>)
               in if showHostname then
                    (case get_hostname gethostbyaddr (AF_INET ip) of
                       None \<Rightarrow> Inl (Cannot_find_hostname ipStr)
                     | Some h \<Rightarrow> Inr (info\<lparr>hostname := Some h\<rparr>))
                  else Inr info)"

section \<open>IPv6\<close>

text \<open>
  A \<^verbatim>\<open>struct in6_addr\<close> is its array \<^verbatim>\<open>s6_addr\<close> of 16 bytes, a list here; the source
  reads and writes the indices 0 to 15 only.

  \<^verbatim>\<open>ipv6_prefix_to_mask\<close>: the loop \<^verbatim>\<open>for (i = prefix, j = 0; i > 0; i -= 8, j++)\<close> writes
  one byte of the zeroed mask per round; \<^verbatim>\<open>0xffU << (8 - i)\<close> is computed on 32 bits and
  cut to a byte by the assignment. The function gives \<^verbatim>\<open>NULL\<close> (\<open>None\<close>) for a prefix
  of 0 or above 128, and otherwise the text of the mask together with the mask itself
  (the output parameter). \<open>inet_ntop\<close> is the C library's printer for \<^verbatim>\<open>AF_INET6\<close>,
  total on the buffers the source gives it.
\<close>

function ipv6_mask_loop :: "int \<Rightarrow> nat \<Rightarrow> in6_addr \<Rightarrow> in6_addr" where
  "ipv6_mask_loop i j in6 =
     (if i > 0 then
        ipv6_mask_loop (i - 8) (j + 1)
          (in6[j := (if i \<ge> 8 then 0xff
                     else ucast (push_bit (nat (8 - i)) (0xff :: u32)))])
      else in6)"
  by pat_completeness auto
termination
  by (relation "measure (\<lambda>(i, j, in6). nat i)") auto

definition ipv6_prefix_to_mask ::
  "(in6_addr \<Rightarrow> string) \<Rightarrow> nat \<Rightarrow> (string \<times> in6_addr) option" where
  "ipv6_prefix_to_mask inet_ntop pfx =
     (if pfx = 0 \<or> pfx > 128 then None
      else
        let in6 = ipv6_mask_loop (int pfx) 0 (replicate 16 0)
        in Some (inet_ntop in6, in6))"

text \<open>
  \<^verbatim>\<open>ipv6_net_to_type\<close>: \<^verbatim>\<open>memcmp(net->s6_addr, lit, n) == 0\<close> compares the first \<open>n\<close> bytes
  with the bytes of the string literal.
\<close>

definition ipv6_net_to_type :: "in6_addr \<Rightarrow> string" where
  "ipv6_net_to_type net =
     (let word1 = (push_bit 8 (ucast (net ! 0)) OR ucast (net ! 1) :: u16);
          word2 = (push_bit 8 (ucast (net ! 2)) OR ucast (net ! 3) :: u16)
      in if take 16 net = [0, 0, 0, 0, 0, 0, 0, 0, 0, 0, 0, 0, 0, 0, 0, 1]
           then ''Loopback Address''
         else if take 16 net = [0, 0, 0, 0, 0, 0, 0, 0, 0, 0, 0, 0, 0, 0, 0, 0]
           then ''Unspecified Address''
         else if take 12 net = [0, 0, 0, 0, 0, 0, 0, 0, 0, 0, 0xff, 0xff]
           then ''IPv4-mapped Address''
         else if take 12 net = [0, 0x64, 0xff, 0x9b, 0, 0, 0, 0, 0, 0, 0, 0]
           then ''IPv4-IPv6 Translat.''
         else if take 12 net = [0x10, 0, 0, 0, 0, 0, 0, 0, 0, 0, 0, 0]
           then ''Discard-Only Address Block''
         else if word1 AND 0xfffe = 0x2001 \<and> word2 = 0
           then ''IETF Protocol Assignments''
         else if word1 AND 0xe000 = 0x2000 then ''Global Unicast''
         else if (net ! 0) AND 0xfe = 0xfc then ''Unique Local Unicast''
         else if word1 AND 0xffc0 = 0xfe80 then ''Link-Scoped Unicast''
         else if (net ! 0) AND 0xff = 0xff then ''Multicast''
         else if word1 AND 0xfffe = 0x2002 then ''6to4''
         else ''Reserved'')"

text \<open>
  \<^verbatim>\<open>expand_ipv6\<close>: every byte as two lower-case hexadecimal digits (\<^verbatim>\<open>"%.2x"\<close>), with a
  colon after each odd index but the last.
\<close>

definition hex_digit :: "nat \<Rightarrow> char" where
  "hex_digit n = ''0123456789abcdef'' ! n"

definition expand_ipv6 :: "in6_addr \<Rightarrow> string" where
  "expand_ipv6 ip6 =
     concat (map (\<lambda>i. [hex_digit (unat (ip6 ! i) div 16), hex_digit (unat (ip6 ! i) mod 16)] @
                       (if i mod 2 \<noteq> 0 \<and> i \<noteq> 15 then '':'' else []))
                 [0..<16])"

text \<open>
  \<^verbatim>\<open>get_ipv6_info\<close>. The two loops over \<^verbatim>\<open>i < sizeof(struct in6_addr)\<close> run over the
  indices 0 to 15.
\<close>

definition get_ipv6_info ::
  "(string \<Rightarrow> in6_addr option) \<Rightarrow> (in6_addr \<Rightarrow> string) \<Rightarrow> (sockaddr \<Rightarrow> string option) \<Rightarrow>
   string \<Rightarrow> int \<Rightarrow> bool \<Rightarrow> diag + ip_info_st" where
  "get_ipv6_info inet_pton inet_ntop gethostbyaddr ipStr prefix0 showHostname =
     (let info = info_zero
      in case inet_pton ipStr of
           None \<Rightarrow> Inl (Bad_IPv6_address ipStr)
         | Some ip6 \<Rightarrow>
             let info = info\<lparr>expanded_ip := Some (expand_ipv6 ip6)\<rparr>
             in if prefix0 = 0 \<or> prefix0 > 128 then Inl (Bad_IPv6_prefix prefix0)
                else
                  let pfx = (if prefix0 < 0 then 128 else prefix0);
                      info = info\<lparr>prefix := nat pfx\<rparr>
                  in case ipv6_prefix_to_mask inet_ntop (nat pfx) of
                       None \<Rightarrow> Inl (Error_converting_IPv6_prefix pfx)
                     | Some res \<Rightarrow>
                         let info = info\<lparr>netmask := Some (fst res)\<rparr>;
                             mask = snd res;
                             net = map (\<lambda>i. (ip6 ! i) AND (mask ! i)) [0..<16];
                             errBuf = inet_ntop net;
                             info = info\<lparr>network := Some errBuf\<rparr>;
                             info = info\<lparr>expanded_network := Some (expand_ipv6 net)\<rparr>;
                             info = info\<lparr>type := Some (ipv6_net_to_type net)\<rparr>;
                             info =
                               (if pfx < 128 then
                                  let info = info\<lparr>hostmin := Some errBuf\<rparr>;
                                      net = map (\<lambda>i. (net ! i) OR NOT (mask ! i)) [0..<16];
                                      errBuf = inet_ntop net
                                  in info\<lparr>hostmax := Some errBuf\<rparr>
                                else info\<lparr>hostmin := network info, hostmax := network info\<rparr>)
                         in if showHostname then
                              (case get_hostname gethostbyaddr (AF_INET6 ip6) of
                                 None \<Rightarrow> Inl (Cannot_find_hostname ipStr)
                               | Some h \<Rightarrow> Inr (info\<lparr>hostname := Some h\<rparr>))
                            else Inr info)"

section \<open>The shorthand padding in the words of the specification\<close>

text \<open>
  The specification describes the shorthand as a rule on the text: an address with
  fewer than four dotted components is padded on the right with \<^verbatim>\<open>".0"\<close> until it has
  four. \<open>components\<close> counts the pieces between the dots, and \<open>pad_to_four\<close> is that
  rule; \<open>cidr_expand\<close> above is the code.
\<close>

definition components :: "string \<Rightarrow> nat" where
  "components s = Suc (count_list s (CHR ''.''))"

function pad_to_four :: "string \<Rightarrow> string" where
  "pad_to_four s = (if components s < 4 then pad_to_four (s @ ''.0'') else s)"
  by pat_completeness auto
termination
  by (relation "measure (\<lambda>s. 4 - components s)") (auto simp add: components_def)

declare pad_to_four.simps [simp del]

text \<open>
  The specification's IPv6 netmask sets the top \<open>p\<close> of the 128 bits: byte \<open>i\<close> of
  \<open>top_bits6 p\<close> has its \<open>min 8 (p - 8 * i)\<close> most significant bits set.
  \<open>ipv6_mask_loop\<close> above is the code.
\<close>

definition top_bits6 :: "nat \<Rightarrow> in6_addr" where
  "top_bits6 p = map (\<lambda>i. NOT (mask (8 - min 8 (p - 8 * i)))) [0..<16]"

section \<open>The command line\<close>

text \<open>
  \<^verbatim>\<open>safe_atoi\<close> reads the prefix with \<^verbatim>\<open>strtol(s, &x, 0)\<close>. The parameter \<open>strtol\<close> gives
  the value \<open>l\<close>, the rest \<open>x\<close> of the string after the number and the \<^verbatim>\<open>errno\<close> it
  leaves. \<^verbatim>\<open>x == s\<close> holds when nothing was read (the rest is as long as the string),
  \<^verbatim>\<open>*x\<close> when the rest is not empty. A \<^verbatim>\<open>long\<close> has 64 bits and an \<^verbatim>\<open>int\<close> 32, so
  \<^verbatim>\<open>(long)(int)l != l\<close> holds for the values outside the 32-bit range. The result is
  \<open>Inl\<close> of the nonzero return code or \<open>Inr\<close> of the value stored in \<^verbatim>\<open>*ret_i\<close> (return
  code 0). \<open>EINVAL\<close> and \<open>ERANGE\<close> have their Linux values; \<^verbatim>\<open>main\<close> only tests the
  code against 0.
\<close>

definition EINVAL :: int where
  "EINVAL = 22"

definition ERANGE :: int where
  "ERANGE = 34"

definition safe_atoi :: "(string \<Rightarrow> int \<times> string \<times> int) \<Rightarrow> string \<Rightarrow> int + int" where
  "safe_atoi strtol s =
     (case strtol s of
        (l, x, errno) \<Rightarrow>
          if length x = length s \<or> x \<noteq> [] \<or> errno \<noteq> 0
          then Inl (if errno > 0 then - errno else - EINVAL)
          else if l < - (2 ^ 31) \<or> 2 ^ 31 \<le> l then Inl (- ERANGE)
          else Inr l)"

text \<open>
  \<^verbatim>\<open>main\<close>, up to the point where it starts printing. The option table is read by the
  popt library: \<open>rc\<close> is the result of \<^verbatim>\<open>poptGetNextOpt\<close>, the record \<open>options\<close> holds the
  flags the computation reads (the other flags only select what is printed), and
  \<open>args\<close> are the arguments left over, which \<^verbatim>\<open>poptGetArg\<close> hands out one by one. Every
  \<^verbatim>\<open>return 1\<close> is \<open>Inl\<close> of the diagnostic printed there; \<open>Inr\<close> is the record that
  the rest of \<^verbatim>\<open>main\<close> prints before it returns 0.
\<close>

record options =
  showBroadcast :: bool
  showNetwork :: bool
  showPrefix :: bool
  showHostname :: bool

datatype main_diag =
  Bad_argument
  | Ip_address_expected
  | Bad_prefix "string option"
  | Netmask_or_prefix_expected
  | Both_netmask_and_prefix_specified
  | Error_calculating_network diag
  | Unexpected_argument string

definition main ::
  "bool \<Rightarrow> (string \<Rightarrow> in_addr option) \<Rightarrow> (in_addr \<Rightarrow> string) \<Rightarrow>
   (string \<Rightarrow> in6_addr option) \<Rightarrow> (in6_addr \<Rightarrow> string) \<Rightarrow> (sockaddr \<Rightarrow> string option) \<Rightarrow>
   (string \<Rightarrow> int \<times> string \<times> int) \<Rightarrow> int \<Rightarrow> options \<Rightarrow> string list \<Rightarrow>
   main_diag + ip_info_st" where
  "main le inet_pton4 inet_ntop4 inet_pton6 inet_ntop6 gethostbyaddr strtol rc opts args =
     (if rc < - 1 then Inl Bad_argument
      else case args of
        [] \<Rightarrow> Inl Ip_address_expected
      | arg # args1 \<Rightarrow>
          let familyIPv6 = (strchr arg (CHR '':'') \<noteq> None);
              prefixStr = (case strchr arg (CHR ''/'') of
                             None \<Rightarrow> None
                           | Some r \<Rightarrow> Some (tl r));
              ipStr = (case strchr arg (CHR ''/'') of
                         None \<Rightarrow> arg
                       | Some r \<Rightarrow> takeWhile (\<lambda>c. c \<noteq> CHR ''/'') arg);
              parsed =
                (case prefixStr of
                   None \<Rightarrow> Inr (- 1)
                 | Some ps \<Rightarrow>
                     (case (if \<not> familyIPv6 \<and> strchr ps (CHR ''.'') \<noteq> None
                            then Inr (ipv4_mask_to_int le inet_pton4 ps)
                            else safe_atoi strtol ps) of
                        Inl r \<Rightarrow> Inl (Bad_prefix (Some ps))
                      | Inr pfx \<Rightarrow>
                          if pfx < 0 \<or> (familyIPv6 \<and> pfx > 128) \<or> (\<not> familyIPv6 \<and> pfx > 32)
                          then Inl (Bad_prefix (Some ps))
                          else Inr pfx))
          in case parsed of
               Inl e \<Rightarrow> Inl e
             | Inr pfx \<Rightarrow>
                 let called =
                   (if familyIPv6 then
                      Inr (get_ipv6_info inet_pton6 inet_ntop6 gethostbyaddr ipStr pfx
                             (showHostname opts), args1)
                    else
                      let wanted = (showBroadcast opts \<or> showNetwork opts \<or> showPrefix opts);
                          netmaskStr = (if wanted then (case args1 of [] \<Rightarrow> None | a # _ \<Rightarrow> Some a)
                                        else None);
                          args2 = (if wanted then drop 1 args1 else args1)
                      in if wanted \<and> netmaskStr = None \<and> pfx < 0
                           then Inl Netmask_or_prefix_expected
                         else if wanted \<and> netmaskStr \<noteq> None \<and> pfx \<ge> 0
                           then Inl Both_netmask_and_prefix_specified
                         else
                           (case (case netmaskStr of
                                    None \<Rightarrow> Inr pfx
                                  | Some ms \<Rightarrow>
                                      if pfx = - 1 then
                                        (let q = ipv4_mask_to_int le inet_pton4 ms
                                         in if q < 0 then Inl (Bad_prefix prefixStr) else Inr q)
                                      else Inr pfx) of
                              Inl e \<Rightarrow> Inl e
                            | Inr q \<Rightarrow>
                                Inr (get_ipv4_info le inet_pton4 inet_ntop4 gethostbyaddr ipStr q
                                       (showHostname opts), args2)))
                 in case called of
                      Inl e \<Rightarrow> Inl e
                    | Inr (r, rest) \<Rightarrow>
                        (case r of
                           Inl d \<Rightarrow> Inl (Error_calculating_network d)
                         | Inr info \<Rightarrow>
                             (case rest of
                                [] \<Rightarrow> Inr info
                              | chptr # _ \<Rightarrow> Inl (Unexpected_argument chptr))))"

section \<open>Byte order and masks\<close>

lemma bswap32_bit:
  "bit (bswap32 x) n \<longleftrightarrow>
     n < 32 \<and> bit x (if n < 8 then n + 24 else if n < 16 then n + 8
                       else if n < 24 then n - 8 else n - 24)"
  unfolding bswap32_def
  by (auto simp add: bit_simps ac_simps dest: bit_imp_le_length)

lemma bswap32_bswap32: "bswap32 (bswap32 x) = x"
  by (rule bit_word_eqI) (auto simp add: bswap32_bit)

lemma bswap32_and: "bswap32 (a AND b) = bswap32 a AND bswap32 b"
  by (rule bit_word_eqI) (auto simp add: bswap32_bit bit_simps)

lemma bswap32_or: "bswap32 (a OR b) = bswap32 a OR bswap32 b"
  by (rule bit_word_eqI) (auto simp add: bswap32_bit bit_simps)

lemma bswap32_not: "bswap32 (NOT a) = NOT (bswap32 a)"
  by (rule bit_word_eqI) (auto simp add: bswap32_bit bit_simps)

lemma bswap32_zero: "bswap32 0 = 0"
  by (simp add: bswap32_def)

lemma ntohl_htonl: "ntohl le (htonl le x) = x"
  by (simp add: ntohl_def htonl_def bswap32_bswap32)

lemma htonl_ntohl: "htonl le (ntohl le x) = x"
  by (simp add: ntohl_def htonl_def bswap32_bswap32)

lemma ntohl_and: "ntohl le (a AND b) = ntohl le a AND ntohl le b"
  by (simp add: ntohl_def bswap32_and)

lemma ntohl_or: "ntohl le (a OR b) = ntohl le a OR ntohl le b"
  by (simp add: ntohl_def bswap32_or)

lemma ntohl_not: "ntohl le (NOT a) = NOT (ntohl le a)"
  by (simp add: ntohl_def bswap32_not)

lemma htonl_zero: "htonl le 0 = 0"
  by (simp add: htonl_def bswap32_zero)

lemma htonl_not: "htonl le (NOT a) = NOT (htonl le a)"
  by (simp add: htonl_def bswap32_not)

lemma ntohl_prefix2mask:
  assumes "0 \<le> p" "p \<le> 32"
  shows "ntohl le (prefix2mask le p) = NOT (mask (nat (32 - p)))"
proof (cases "p = 0")
  case True
  have "(mask 32 :: u32) = - 1"
    by (simp add: mask_eq_exp_minus_1)
  then show ?thesis using True
    by (simp add: prefix2mask_def ntohl_htonl)
next
  case False
  then show ?thesis
    by (simp add: prefix2mask_def ntohl_htonl mask_eq_exp_minus_1 push_bit_eq_mult)
qed

lemma prefix2mask_bit:
  assumes "0 \<le> p" "p \<le> 32"
  shows "bit (ntohl le (prefix2mask le p)) n \<longleftrightarrow> n < 32 \<and> 32 - nat p \<le> n"
  using assms by (auto simp add: ntohl_prefix2mask bit_simps nat_diff_distrib)

lemma bit_count_masks:
  "\<forall>p \<in> set [1..32]. bit_count (NOT (push_bit (nat (32 - p)) 1 - 1)) = p"
  by code_simp

lemma bit_count_prefix2mask:
  assumes "1 \<le> p" "p \<le> 32"
  shows "bit_count (ntohl le (prefix2mask le p)) = p"
proof -
  from assms have "p \<in> set [1..32]" by simp
  then have "bit_count (NOT (push_bit (nat (32 - p)) 1 - 1)) = p"
    using bit_count_masks by blast
  with assms show ?thesis
    by (simp add: prefix2mask_def ntohl_htonl)
qed

lemma bit_count_zero: "bit_count 0 = - 1"
  by (simp add: bit_count_def)

section \<open>The shorthand loops\<close>

lemma strchr_None: "strchr s c = None \<longleftrightarrow> c \<notin> set s"
proof (cases "dropWhile (\<lambda>x. x \<noteq> c) s")
  case Nil
  then have "strchr s c = None"
    by (simp only: strchr_def list.case)
  moreover from Nil have "c \<notin> set s"
    by (auto simp add: dropWhile_eq_Nil_conv)
  ultimately show ?thesis by simp
next
  case (Cons a r)
  then have "strchr s c \<noteq> None"
    by (simp only: strchr_def list.case) simp
  moreover have "c \<in> set s"
  proof (rule ccontr)
    assume "c \<notin> set s"
    then have "dropWhile (\<lambda>x. x \<noteq> c) s = []"
      by (auto simp add: dropWhile_eq_Nil_conv)
    with Cons show False by simp
  qed
  ultimately show ?thesis by simp
qed

lemma count_list_dropWhile:
  "count_list (dropWhile (\<lambda>x. x \<noteq> c) s) c = count_list s c"
  by (induction s) auto

lemma strchr_Some:
  assumes "strchr s c = Some r"
  shows "count_list s c = Suc (count_list (tl r) c)"
proof -
  from assms have r: "dropWhile (\<lambda>x. x \<noteq> c) s = r" and "r \<noteq> []"
    by (auto simp add: strchr_def split: list.splits)
  then have "hd r = c"
    using hd_dropWhile [of "\<lambda>x. x \<noteq> c" s] by auto
  with \<open>r \<noteq> []\<close> have "count_list r c = Suc (count_list (tl r) c)"
    by (cases r) auto
  with r show ?thesis
    using count_list_dropWhile [of c s] by simp
qed

lemma cidr_dots_loop_eq: "cidr_dots_loop n s = n - count_list s (CHR ''.'')"
proof (induction n arbitrary: s)
  case 0
  then show ?case by simp
next
  case (Suc n)
  show ?case
  proof (cases "strchr s (CHR ''.'')")
    case None
    then have "count_list s (CHR ''.'') = 0"
      by (simp add: strchr_None)
    with None show ?thesis by simp
  next
    case (Some r)
    from strchr_Some [OF Some] Some Suc.IH [of "tl r"] show ?thesis by simp
  qed
qed

lemma cidr_pad_loop_eq: "cidr_pad_loop n s = s @ concat (replicate n ''.0'')"
  by (induction n arbitrary: s) (simp_all add: replicate_app_Cons_same)

lemma pad_to_four_eq:
  "pad_to_four s = s @ concat (replicate (3 - count_list s (CHR ''.'')) ''.0'')"
proof (induction s rule: pad_to_four.induct)
  case (1 s)
  show ?case
  proof (cases "components s < 4")
    case True
    then have lt: "count_list s (CHR ''.'') < 3"
      by (simp add: components_def)
    then have "3 - count_list s (CHR ''.'') = Suc (3 - count_list (s @ ''.0'') (CHR ''.''))"
      by simp
    then show ?thesis
      using 1 [OF True] True by (simp add: pad_to_four.simps [of s])
  next
    case False
    then show ?thesis by (simp add: components_def pad_to_four.simps [of s])
  qed
qed

lemma count_list_dot_zeros: "count_list (concat (replicate n ''.0'')) (CHR ''.'') = n"
  by (induction n) simp_all

lemma cidr_expand_pad_to_four: "cidr_expand s = pad_to_four s"
  by (simp only: cidr_expand_def cidr_dots_loop_eq cidr_pad_loop_eq pad_to_four_eq)

lemma components_pad_to_four:
  "components s < 4 \<Longrightarrow> components (pad_to_four s) = 4"
  by (simp add: pad_to_four_eq components_def count_list_dot_zeros)

section \<open>The successful run of \<^verbatim>\<open>get_ipv4_info\<close>\<close>

lemma get_ipv4_info_valid:
  assumes "inet_pton (cidr_expand s) = Some ip" and "0 \<le> p" and "p \<le> 32"
  shows "get_ipv4_info le inet_pton inet_ntop ghba s p sh =
     (let net = calc_network le ip p;
          bc = calc_broadcast le ip p;
          info = \<lparr>expanded_ip = None, expanded_network = None,
                  network = Some (inet_ntop net), broadcast = Some (inet_ntop bc),
                  netmask = Some (inet_ntop (prefix2mask le p)), hostname = None,
                  prefix = nat p,
                  hostmin = Some (inet_ntop (if p \<le> 30 then htonl le (ntohl le net OR 1) else net)),
                  hostmax = Some (inet_ntop (if p \<le> 30 then htonl le (ntohl le bc - 1)
                                             else if p = 31 then bc else net)),
                  type = Some (ipv4_net_to_type le net)\<rparr>
      in if sh then
           (case get_hostname ghba (AF_INET ip) of
              None \<Rightarrow> Inl (Cannot_find_hostname (cidr_expand s))
            | Some h \<Rightarrow> Inr (info\<lparr>hostname := Some h\<rparr>))
         else Inr info)"
  using assms
  by (auto simp add: get_ipv4_info_def Let_def info_zero_def calc_network_def calc_broadcast_def
      split: option.splits)

section \<open>Prefix to mask and back\<close>

text \<open>
  C1, as the code has it. For every prefix \<open>p\<close> from 1 to 32, the mask of
  \<open>prefix2mask\<close> read back by \<open>bit_count\<close> (after \<^verbatim>\<open>ntohl\<close>, as \<open>ipv4_mask_to_int\<close> does
  with the mask it has parsed) is \<open>p\<close> again, on either byte order. The prefix 0 is
  left out: its mask is all-zero, and \<open>bit_count\<close> answers \<open>-1\<close> for it.
\<close>

theorem prefix2mask_roundtrip:
  assumes "1 \<le> p" and "p \<le> 32"
  shows "bit_count (ntohl le (prefix2mask le p)) = p \<and>
         (inet_pton str = Some (prefix2mask le p) \<longrightarrow> ipv4_mask_to_int le inet_pton str = p)"
  using assms by (simp add: ipv4_mask_to_int_def bit_count_prefix2mask)

theorem prefix2mask_roundtrip_witness:
  "(1::int) \<le> 24 \<and> (24::int) \<le> 32 \<and>
   bit_count (ntohl True (prefix2mask True 24)) = 24 \<and>
   ipv4_mask_to_int True (\<lambda>s. if s = ''255.255.255.0'' then Some (prefix2mask True 24) else None)
     ''255.255.255.0'' = 24"
  using prefix2mask_roundtrip
    [where p = 24 and le = True and str = "''255.255.255.0''"
       and inet_pton = "\<lambda>s. if s = ''255.255.255.0'' then Some (prefix2mask True 24) else None"]
  by simp

text \<open>
  The endpoint the claim includes: the mask of prefix 0 is 0, and \<open>bit_count\<close>
  returns \<open>-1\<close> on it, not 0.
\<close>

theorem prefix2mask_roundtrip_zero_counterexample:
  "prefix2mask True 0 = 0 \<and> bit_count (ntohl True (prefix2mask True 0)) = - 1 \<and>
   bit_count (ntohl True (prefix2mask True 0)) \<noteq> 0"
  by (simp add: prefix2mask_def htonl_zero ntohl_def bswap32_zero bit_count_zero)

section \<open>Network, broadcast and host range (IPv4)\<close>

lemma or_one_even:
  fixes x :: u32
  assumes "\<not> bit x 0"
  shows "x OR 1 = x + 1"
  using assms by (simp add: or_one_eq bit_0)

lemma network_bit0:
  assumes "0 \<le> p" and "p \<le> 31"
  shows "\<not> bit (ntohl le (calc_network le ip p)) 0"
proof -
  from assms have "\<not> 32 \<le> nat p"
    by arith
  with assms have "\<not> bit (ntohl le (prefix2mask le p)) 0"
    by (simp add: prefix2mask_bit)
  then show ?thesis
    by (simp add: calc_network_def ntohl_and bit_and_iff)
qed

lemma prefix2mask_32: "prefix2mask le 32 = - 1"
proof -
  have "htonl le (NOT 0) = NOT 0"
    by (simp only: htonl_not htonl_zero)
  then show ?thesis
    by (simp add: prefix2mask_def)
qed

text \<open>
  C2. For an address text the parser accepts (as \<open>ip\<close>) and a prefix \<open>p\<close> from 0 to 32,
  \<open>get_ipv4_info\<close> succeeds (the host name not asked for, or found) and reports the
  netmask of \<open>p\<close>, as network the bitwise AND of the address with that netmask and
  as broadcast the bitwise OR of the network with the complement of the netmask;
  these are the values of \<open>calc_network\<close> and \<open>calc_broadcast\<close>. The netmask, read in
  host order, has exactly its \<open>p\<close> most significant bits set.
\<close>

theorem ipv4_network_broadcast:
  assumes "inet_pton (cidr_expand s) = Some ip" and "0 \<le> p" and "p \<le> 32"
    and "sh \<longrightarrow> ghba (AF_INET ip) \<noteq> None"
  shows "\<exists>info. get_ipv4_info le inet_pton inet_ntop ghba s p sh = Inr info \<and>
           netmask info = Some (inet_ntop (prefix2mask le p)) \<and>
           network info = Some (inet_ntop (ip AND prefix2mask le p)) \<and>
           broadcast info =
             Some (inet_ntop ((ip AND prefix2mask le p) OR NOT (prefix2mask le p))) \<and>
           calc_network le ip p = ip AND prefix2mask le p \<and>
           calc_broadcast le ip p = calc_network le ip p OR NOT (prefix2mask le p) \<and>
           (\<forall>n. bit (ntohl le (prefix2mask le p)) n \<longleftrightarrow> n < 32 \<and> 32 - nat p \<le> n)"
proof -
  note valid = get_ipv4_info_valid
    [where inet_pton = inet_pton and s = s and ip = ip, OF assms(1-3)]
  show ?thesis
  proof (cases "sh")
    case True
    with assms(4) obtain h where "get_hostname ghba (AF_INET ip) = Some h"
      by (auto simp add: get_hostname_def)
    with True show ?thesis
      using assms(2,3)
      by (simp add: valid Let_def calc_network_def calc_broadcast_def prefix2mask_bit)
  next
    case False
    then show ?thesis
      using assms(2,3)
      by (simp add: valid Let_def calc_network_def calc_broadcast_def prefix2mask_bit)
  qed
qed

theorem ipv4_network_broadcast_witness:
  "\<exists>info.
     get_ipv4_info True (\<lambda>s. if s = ''192.168.1.5'' then Some 0x0501A8C0 else None)
       (\<lambda>a. if a = 0x00FFFFFF then ''255.255.255.0''
            else if a = 0x0001A8C0 then ''192.168.1.0''
            else if a = 0xFF01A8C0 then ''192.168.1.255'' else ''other'')
       (\<lambda>a. None) ''192.168.1.5'' 24 False = Inr info \<and>
     netmask info = Some ''255.255.255.0'' \<and>
     network info = Some ''192.168.1.0'' \<and>
     broadcast info = Some ''192.168.1.255''"
proof -
  have m: "prefix2mask True 24 = 0x00FFFFFF"
    by (simp add: prefix2mask_def htonl_def bswap32_def)
  have e: "cidr_expand ''192.168.1.5'' = ''192.168.1.5''"
    by (simp add: cidr_expand_pad_to_four pad_to_four_eq)
  show ?thesis
    using ipv4_network_broadcast
      [where le = True and s = "''192.168.1.5''" and ip = "0x0501A8C0" and p = 24
         and sh = False and ghba = "\<lambda>a. None"
         and inet_pton = "\<lambda>s. if s = ''192.168.1.5'' then Some 0x0501A8C0 else None"
         and inet_ntop = "\<lambda>a. if a = 0x00FFFFFF then ''255.255.255.0''
            else if a = 0x0001A8C0 then ''192.168.1.0''
            else if a = 0xFF01A8C0 then ''192.168.1.255'' else ''other''"]
    by (auto simp add: m e)
qed

text \<open>
  C3. Under the same conditions: for \<open>p \<le> 30\<close> the reported host-min is the network
  address plus one and the host-max the broadcast address minus one (the arithmetic
  is on the host-order values, as in the source); for \<open>p\<close> 31 or 32 the host-min is
  the reported network and the host-max the reported broadcast.
\<close>

theorem ipv4_host_range:
  assumes "inet_pton (cidr_expand s) = Some ip" and "0 \<le> p" and "p \<le> 32"
    and "sh \<longrightarrow> ghba (AF_INET ip) \<noteq> None"
  shows "\<exists>info. get_ipv4_info le inet_pton inet_ntop ghba s p sh = Inr info \<and>
           network info = Some (inet_ntop (calc_network le ip p)) \<and>
           broadcast info = Some (inet_ntop (calc_broadcast le ip p)) \<and>
           (p \<le> 30 \<longrightarrow>
              hostmin info =
                Some (inet_ntop (htonl le (ntohl le (calc_network le ip p) + 1))) \<and>
              hostmax info =
                Some (inet_ntop (htonl le (ntohl le (calc_broadcast le ip p) - 1)))) \<and>
           (p = 31 \<or> p = 32 \<longrightarrow>
              hostmin info = network info \<and> hostmax info = broadcast info)"
proof -
  have min: "ntohl le (calc_network le ip p) OR 1 = ntohl le (calc_network le ip p) + 1"
    if "p \<le> 30"
    using that assms(2) by (intro or_one_even network_bit0) simp_all
  have b32: "calc_broadcast le ip 32 = calc_network le ip 32"
    by (simp add: calc_broadcast_def calc_network_def prefix2mask_32)
  note valid = get_ipv4_info_valid
    [where inet_pton = inet_pton and s = s and ip = ip, OF assms(1-3)]
  show ?thesis
  proof (cases "sh")
    case True
    with assms(4) obtain h where "get_hostname ghba (AF_INET ip) = Some h"
      by (auto simp add: get_hostname_def)
    with True show ?thesis
      using min b32 by (auto simp add: valid Let_def)
  next
    case False
    then show ?thesis
      using min b32 by (auto simp add: valid Let_def)
  qed
qed

theorem ipv4_host_range_witness:
  "(\<exists>info.
     get_ipv4_info True (\<lambda>s. if s = ''192.168.1.5'' then Some 0x0501A8C0 else None)
       (\<lambda>a. if a = 0x0101A8C0 then ''192.168.1.1''
            else if a = 0xFE01A8C0 then ''192.168.1.254'' else ''other'')
       (\<lambda>a. None) ''192.168.1.5'' 24 False = Inr info \<and>
     hostmin info = Some ''192.168.1.1'' \<and> hostmax info = Some ''192.168.1.254'') \<and>
   (\<exists>info.
     get_ipv4_info True (\<lambda>s. if s = ''10.0.0.1'' then Some 0x0100000A else None)
       (\<lambda>a. if a = 0x0000000A then ''10.0.0.0''
            else if a = 0x0100000A then ''10.0.0.1'' else ''other'')
       (\<lambda>a. None) ''10.0.0.1'' 31 False = Inr info \<and>
     hostmin info = Some ''10.0.0.0'' \<and> hostmax info = Some ''10.0.0.1'')"
proof -
  have m24: "prefix2mask True 24 = 0x00FFFFFF"
    by (simp add: prefix2mask_def htonl_def bswap32_def)
  have m31: "prefix2mask True 31 = 0xFEFFFFFF"
    by (simp add: prefix2mask_def htonl_def bswap32_def)
  have e1: "cidr_expand ''192.168.1.5'' = ''192.168.1.5''"
    by (simp add: cidr_expand_pad_to_four pad_to_four_eq)
  have e2: "cidr_expand ''10.0.0.1'' = ''10.0.0.1''"
    by (simp add: cidr_expand_pad_to_four pad_to_four_eq)
  have a: "htonl True (ntohl True (calc_network True 0x0501A8C0 24) + 1) = 0x0101A8C0"
    by (simp add: calc_network_def m24 htonl_def ntohl_def bswap32_def)
  have b: "htonl True (ntohl True (calc_broadcast True 0x0501A8C0 24) - 1) = 0xFE01A8C0"
    by (simp add: calc_broadcast_def m24 htonl_def ntohl_def bswap32_def)
  have c: "calc_network True 0x0100000A 31 = 0x0000000A"
    by (simp add: calc_network_def m31)
  have d: "calc_broadcast True 0x0100000A 31 = 0x0100000A"
    by (simp add: calc_broadcast_def m31)
  have first: "\<exists>info.
     get_ipv4_info True (\<lambda>s. if s = ''192.168.1.5'' then Some 0x0501A8C0 else None)
       (\<lambda>a. if a = 0x0101A8C0 then ''192.168.1.1''
            else if a = 0xFE01A8C0 then ''192.168.1.254'' else ''other'')
       (\<lambda>a. None) ''192.168.1.5'' 24 False = Inr info \<and>
     hostmin info = Some ''192.168.1.1'' \<and> hostmax info = Some ''192.168.1.254''"
    using ipv4_host_range
      [where le = True and s = "''192.168.1.5''" and ip = "0x0501A8C0" and p = 24
         and sh = False and ghba = "\<lambda>a. None"
         and inet_pton = "\<lambda>s. if s = ''192.168.1.5'' then Some 0x0501A8C0 else None"
         and inet_ntop = "\<lambda>a. if a = 0x0101A8C0 then ''192.168.1.1''
            else if a = 0xFE01A8C0 then ''192.168.1.254'' else ''other''"]
    by (auto simp add: e1 a b)
  have second: "\<exists>info.
     get_ipv4_info True (\<lambda>s. if s = ''10.0.0.1'' then Some 0x0100000A else None)
       (\<lambda>a. if a = 0x0000000A then ''10.0.0.0''
            else if a = 0x0100000A then ''10.0.0.1'' else ''other'')
       (\<lambda>a. None) ''10.0.0.1'' 31 False = Inr info \<and>
     hostmin info = Some ''10.0.0.0'' \<and> hostmax info = Some ''10.0.0.1''"
    using ipv4_host_range
      [where le = True and s = "''10.0.0.1''" and ip = "0x0100000A" and p = 31
         and sh = False and ghba = "\<lambda>a. None"
         and inet_pton = "\<lambda>s. if s = ''10.0.0.1'' then Some 0x0100000A else None"
         and inet_ntop = "\<lambda>a. if a = 0x0000000A then ''10.0.0.0''
            else if a = 0x0100000A then ''10.0.0.1'' else ''other''"]
    by (auto simp add: e2 c d)
  from first second show ?thesis by (rule conjI)
qed

section \<open>The IPv6 netmask and the successful run of \<^verbatim>\<open>get_ipv6_info\<close>\<close>

lemma ipv6_mask_loop_all:
  "\<forall>p \<in> set [1..<129]. ipv6_mask_loop (int p) 0 (replicate 16 0) = top_bits6 p"
  by code_simp

lemma bit_top_bits6:
  assumes "i < 16"
  shows "bit (top_bits6 p ! i) k \<longleftrightarrow> k < 8 \<and> 8 * i + (7 - k) < p"
  using assms by (auto simp add: top_bits6_def bit_simps)

lemma ipv6_prefix_to_mask_valid:
  assumes "1 \<le> p" and "p \<le> 128"
  shows "ipv6_prefix_to_mask inet_ntop p = Some (inet_ntop (top_bits6 p), top_bits6 p)"
proof -
  from assms have "p \<in> set [1..<129]" by simp
  then have "ipv6_mask_loop (int p) 0 (replicate 16 0) = top_bits6 p"
    using ipv6_mask_loop_all by blast
  with assms show ?thesis
    by (simp add: ipv6_prefix_to_mask_def Let_def)
qed

lemma length_top_bits6: "length (top_bits6 p) = 16"
  by (simp add: top_bits6_def)

lemma top_bits6_128: "top_bits6 128 = replicate 16 0xff"
  by code_simp

lemma map_index_map2:
  assumes "length xs = n" and "length ys = n"
  shows "map (\<lambda>i. f (xs ! i) (ys ! i)) [0..<n] = map2 f xs ys"
  using assms by (intro nth_equalityI) simp_all

lemma get_ipv6_info_valid:
  assumes "inet_pton s = Some ip6" and "length ip6 = 16" and "1 \<le> p" and "p \<le> 128"
  shows "get_ipv6_info inet_pton inet_ntop ghba s p sh =
     (let m = top_bits6 (nat p);
          net = map2 (AND) ip6 m;
          info = \<lparr>expanded_ip = Some (expand_ipv6 ip6),
                  expanded_network = Some (expand_ipv6 net),
                  network = Some (inet_ntop net), broadcast = None,
                  netmask = Some (inet_ntop m), hostname = None,
                  prefix = nat p,
                  hostmin = Some (inet_ntop net),
                  hostmax = Some (inet_ntop (if p < 128 then map2 (\<lambda>n m. n OR NOT m) net m
                                             else net)),
                  type = Some (ipv6_net_to_type net)\<rparr>
      in if sh then
           (case get_hostname ghba (AF_INET6 ip6) of
              None \<Rightarrow> Inl (Cannot_find_hostname s)
            | Some h \<Rightarrow> Inr (info\<lparr>hostname := Some h\<rparr>))
         else Inr info)"
proof -
  from assms have m: "ipv6_prefix_to_mask inet_ntop (nat p) =
      Some (inet_ntop (top_bits6 (nat p)), top_bits6 (nat p))"
    by (intro ipv6_prefix_to_mask_valid) simp_all
  have n: "map (\<lambda>i. ip6 ! i AND top_bits6 (nat p) ! i) [0..<16] = map2 (AND) ip6 (top_bits6 (nat p))"
    using assms(2) by (intro map_index_map2) (simp_all add: length_top_bits6)
  have h: "map (\<lambda>i. map2 (AND) ip6 (top_bits6 (nat p)) ! i OR NOT (top_bits6 (nat p) ! i)) [0..<16] =
      map2 (\<lambda>n m. n OR NOT m) (map2 (AND) ip6 (top_bits6 (nat p))) (top_bits6 (nat p))"
    using assms(2) by (intro map_index_map2) (simp_all add: length_top_bits6)
  from assms(3,4) have r: "\<not> (p = 0 \<or> 128 < p)" "\<not> p < 0" "(p < 128) \<or> p = 128"
    by arith+
  show ?thesis
  proof (cases "p < 128")
    case True
    with r(1,2) show ?thesis
      by (simp add: get_ipv6_info_def Let_def info_zero_def assms(1) m n h split: option.splits)
  next
    case False
    with r(3) have p128: "p = 128" by simp
    note m' = m [unfolded p128, simplified]
      and n' = n [unfolded p128, simplified]
    show ?thesis
      by (simp add: p128 get_ipv6_info_def Let_def info_zero_def assms(1) m' n'
          split: option.splits)
  qed
qed

lemma map2_and_ones:
  fixes xs :: "u8 list"
  assumes "length xs = 16"
  shows "map2 (AND) xs (replicate 16 0xff) = xs"
proof -
  have "x AND 0xff = x" for x :: u8
  proof -
    have "(0xff :: u8) = - 1" by simp
    then show ?thesis by (simp only: and.right_neutral)
  qed
  with assms show ?thesis
    by (intro nth_equalityI) simp_all
qed

lemma ipv6_prefix_to_mask_Some:
  assumes "1 \<le> p" and "p \<le> 128"
  shows "ipv6_prefix_to_mask inet_ntop p \<noteq> None"
  using assms by (simp add: ipv6_prefix_to_mask_def Let_def)

section \<open>Host range (IPv6)\<close>

text \<open>
  C4. For an address text the parser accepts (as the 16 bytes \<open>ip6\<close>) and a prefix \<open>p\<close>
  from 1 to 128, \<open>get_ipv6_info\<close> succeeds (the host name not asked for, or found).
  With \<open>m\<close> the mask of \<open>ipv6_prefix_to_mask\<close>, whose top \<open>p\<close> bits are set, and \<open>net\<close>
  the byte-wise AND of the address with \<open>m\<close>: the reported network and host-min are
  \<open>net\<close>; for \<open>p < 128\<close> the host-max is the byte-wise OR of \<open>net\<close> with the inverted
  mask, and for \<open>p = 128\<close> it is \<open>net\<close>. No broadcast is reported.
\<close>

theorem ipv6_host_range:
  assumes "inet_pton s = Some ip6" and "length ip6 = 16" and "1 \<le> p" and "p \<le> 128"
    and "sh \<longrightarrow> ghba (AF_INET6 ip6) \<noteq> None"
  shows "\<exists>info m net.
           get_ipv6_info inet_pton inet_ntop ghba s p sh = Inr info \<and>
           ipv6_prefix_to_mask inet_ntop (nat p) = Some (inet_ntop m, m) \<and>
           (\<forall>i<16. \<forall>k. bit (m ! i) k \<longleftrightarrow> k < 8 \<and> 8 * i + (7 - k) < nat p) \<and>
           net = map2 (AND) ip6 m \<and>
           network info = Some (inet_ntop net) \<and>
           hostmin info = Some (inet_ntop net) \<and>
           (p < 128 \<longrightarrow> hostmax info = Some (inet_ntop (map2 (\<lambda>n m. n OR NOT m) net m))) \<and>
           (p = 128 \<longrightarrow> hostmax info = Some (inet_ntop net)) \<and>
           broadcast info = None"
proof -
  from assms(3,4) have m: "ipv6_prefix_to_mask inet_ntop (nat p) =
      Some (inet_ntop (top_bits6 (nat p)), top_bits6 (nat p))"
    by (intro ipv6_prefix_to_mask_valid) simp_all
  note valid = get_ipv6_info_valid [where inet_pton = inet_pton and s = s, OF assms(1-4)]
  show ?thesis
  proof (cases "sh")
    case True
    with assms(5) obtain h where "get_hostname ghba (AF_INET6 ip6) = Some h"
      by (auto simp add: get_hostname_def)
    with True show ?thesis
      by (simp add: valid Let_def m bit_top_bits6)
  next
    case False
    then show ?thesis
      by (simp add: valid Let_def m bit_top_bits6)
  qed
qed

theorem ipv6_host_range_witness:
  "\<exists>info.
     get_ipv6_info
       (\<lambda>s. if s = ''2001:db8::1''
            then Some [0x20, 0x01, 0x0d, 0xb8, 0, 0, 0, 0, 0, 0, 0, 0, 0, 0, 0, 1] else None)
       expand_ipv6 (\<lambda>a. None) ''2001:db8::1'' 32 False = Inr info \<and>
     network info = Some ''2001:0db8:0000:0000:0000:0000:0000:0000'' \<and>
     hostmin info = Some ''2001:0db8:0000:0000:0000:0000:0000:0000'' \<and>
     hostmax info = Some ''2001:0db8:ffff:ffff:ffff:ffff:ffff:ffff''"
proof -
  let ?addr = "[0x20, 0x01, 0x0d, 0xb8, 0, 0, 0, 0, 0, 0, 0, 0, 0, 0, 0, 1] :: in6_addr"
  let ?parse = "\<lambda>s. if s = ''2001:db8::1'' then Some ?addr else None"
  let ?msk = "[0xff, 0xff, 0xff, 0xff, 0, 0, 0, 0, 0, 0, 0, 0, 0, 0, 0, 0] :: in6_addr"
  have m: "ipv6_prefix_to_mask expand_ipv6 32 = Some (expand_ipv6 ?msk, ?msk)"
    by code_simp
  have n: "expand_ipv6 (map2 (AND) ?addr ?msk) = ''2001:0db8:0000:0000:0000:0000:0000:0000''"
    by code_simp
  have h: "expand_ipv6 (map2 (\<lambda>n m. n OR NOT m) (map2 (AND) ?addr ?msk) ?msk) =
      ''2001:0db8:ffff:ffff:ffff:ffff:ffff:ffff''"
    by code_simp
  from ipv6_host_range
    [where inet_pton = ?parse and s = "''2001:db8::1''" and ?ip6.0 = ?addr and p = 32
       and sh = False and ghba = "\<lambda>a. None" and inet_ntop = expand_ipv6]
  obtain info mk net where
    r: "get_ipv6_info ?parse expand_ipv6 (\<lambda>a. None) ''2001:db8::1'' 32 False = Inr info"
      "ipv6_prefix_to_mask expand_ipv6 (nat 32) = Some (expand_ipv6 mk, mk)"
      "net = map2 (AND) ?addr mk"
      "network info = Some (expand_ipv6 net)"
      "hostmin info = Some (expand_ipv6 net)"
      "hostmax info = Some (expand_ipv6 (map2 (\<lambda>n m. n OR NOT m) net mk))"
    by auto
  from r(2) m have "mk = ?msk" by simp
  with r n h show ?thesis by simp
qed

section \<open>Netmask to prefix\<close>

text \<open>
  C5, at the inputs where the code leaves the claim. The netmask \<^verbatim>\<open>0.255.0.0\<close> has zero
  bits above its one bits and should be refused; \<open>bit_count\<close> reads from the least
  significant bit, stops when no one bit is left above, and answers 8, and so does
  \<open>ipv4_mask_to_int\<close> on the text. \<^verbatim>\<open>0.0.0.255\<close> gives 8 as well. A zero bit between
  one bits is refused: \<^verbatim>\<open>255.0.255.0\<close> gives \<open>-1\<close>.
\<close>

theorem mask_to_prefix_leading_zero_bits:
  "bit_count 0x00FF0000 = 8 \<and>
   ipv4_mask_to_int True (\<lambda>s. if s = ''0.255.0.0'' then Some 0x0000FF00 else None)
     ''0.255.0.0'' = 8 \<and>
   bit_count 0x000000FF = 8 \<and>
   bit_count 0xFF00FF00 = - 1"
  by code_simp

section \<open>Prefix validation\<close>

text \<open>
  C6. With address texts that the parsers accept and a prefix \<open>p \<ge> 0\<close>:
  \<open>get_ipv6_info\<close> fails with the bad-prefix diagnostic exactly when \<open>p = 0\<close> or
  \<open>p > 128\<close>, and (the host name not asked for) fails in no other case;
  \<open>get_ipv4_info\<close> fails with its bad-prefix diagnostic exactly when \<open>p > 32\<close>, and
  fails in no other case; prefix 0 succeeds for IPv4, with prefix 0 in the record,
  and is refused for IPv6.
\<close>

theorem prefix_validation_asymmetry:
  assumes "inet_pton6 s6 = Some ip6" and "inet_pton4 (cidr_expand s4) = Some ip" and "0 \<le> p"
  shows "(get_ipv6_info inet_pton6 inet_ntop6 ghba s6 p sh = Inl (Bad_IPv6_prefix p)
            \<longleftrightarrow> p = 0 \<or> p > 128) \<and>
         (isl (get_ipv6_info inet_pton6 inet_ntop6 ghba s6 p False) \<longleftrightarrow> p = 0 \<or> p > 128) \<and>
         (get_ipv4_info le inet_pton4 inet_ntop4 ghba s4 p sh = Inl (Bad_IPv4_prefix p)
            \<longleftrightarrow> p > 32) \<and>
         (isl (get_ipv4_info le inet_pton4 inet_ntop4 ghba s4 p False) \<longleftrightarrow> p > 32) \<and>
         (\<exists>info. get_ipv4_info le inet_pton4 inet_ntop4 ghba s4 0 False = Inr info \<and>
                 prefix info = 0) \<and>
         get_ipv6_info inet_pton6 inet_ntop6 ghba s6 0 sh = Inl (Bad_IPv6_prefix 0)"
proof -
  have six: "get_ipv6_info inet_pton6 inet_ntop6 ghba s6 q b = Inl (Bad_IPv6_prefix q)"
    if "q = 0 \<or> q > 128" for q b
    using that assms(1) by (auto simp add: get_ipv6_info_def Let_def)
  have six_ok: "\<not> isl (get_ipv6_info inet_pton6 inet_ntop6 ghba s6 p False)"
      "get_ipv6_info inet_pton6 inet_ntop6 ghba s6 p sh \<noteq> Inl (Bad_IPv6_prefix p)"
    if "\<not> (p = 0 \<or> p > 128)"
  proof -
    from that assms(3) have "1 \<le> nat p" "nat p \<le> 128" by arith+
    then obtain r where r: "ipv6_prefix_to_mask inet_ntop6 (nat p) = Some r"
      using ipv6_prefix_to_mask_Some [of "nat p" inet_ntop6] by auto
    from that assms(1,3) r
    show "\<not> isl (get_ipv6_info inet_pton6 inet_ntop6 ghba s6 p False)"
      by (simp add: get_ipv6_info_def Let_def)
    from that assms(1,3) r
    show "get_ipv6_info inet_pton6 inet_ntop6 ghba s6 p sh \<noteq> Inl (Bad_IPv6_prefix p)"
      by (simp add: get_ipv6_info_def Let_def split: option.splits)
  qed
  have four: "get_ipv4_info le inet_pton4 inet_ntop4 ghba s4 q b =
      (if q > 32 then Inl (Bad_IPv4_prefix q)
       else get_ipv4_info le inet_pton4 inet_ntop4 ghba s4 q b)" if "0 \<le> q" for q b
    using that assms(2) by (simp add: get_ipv4_info_def Let_def)
  have four_ok: "\<not> isl (get_ipv4_info le inet_pton4 inet_ntop4 ghba s4 q False)"
      "get_ipv4_info le inet_pton4 inet_ntop4 ghba s4 q b \<noteq> Inl (Bad_IPv4_prefix q)"
      "prefix (projr (get_ipv4_info le inet_pton4 inet_ntop4 ghba s4 q False)) = nat q"
    if "0 \<le> q" "q \<le> 32" for q b
    using that
    by (simp_all add: get_ipv4_info_valid [where inet_pton = inet_pton4 and s = s4, OF assms(2) that]
        Let_def split: option.splits)
  have zero: "\<exists>info. get_ipv4_info le inet_pton4 inet_ntop4 ghba s4 0 False = Inr info \<and>
                 prefix info = 0"
    using four_ok(1,3) [of 0] by (cases "get_ipv4_info le inet_pton4 inet_ntop4 ghba s4 0 False") simp_all
  show ?thesis
    using six [of p] six [of 0] six_ok four [of p] four_ok [of p] zero assms(3)
    by (cases "p > 32"; cases "p = 0 \<or> p > 128") simp_all
qed

theorem prefix_validation_asymmetry_witness:
  "get_ipv6_info (\<lambda>s. Some [0x20, 0x01, 0x0d, 0xb8, 0, 0, 0, 0, 0, 0, 0, 0, 0, 0, 0, 1])
     expand_ipv6 (\<lambda>a. None) ''2001:db8::1'' 0 False = Inl (Bad_IPv6_prefix 0) \<and>
   \<not> isl (get_ipv4_info True (\<lambda>s. if s = ''10.0.0.1'' then Some 0x0100000A else None)
     (\<lambda>a. ''text'') (\<lambda>a. None) ''10.0.0.1'' 0 False) \<and>
   get_ipv6_info (\<lambda>s. Some [0x20, 0x01, 0x0d, 0xb8, 0, 0, 0, 0, 0, 0, 0, 0, 0, 0, 0, 1])
     expand_ipv6 (\<lambda>a. None) ''2001:db8::1'' 129 False = Inl (Bad_IPv6_prefix 129) \<and>
   get_ipv4_info True (\<lambda>s. if s = ''10.0.0.1'' then Some 0x0100000A else None)
     (\<lambda>a. ''text'') (\<lambda>a. None) ''10.0.0.1'' 33 False = Inl (Bad_IPv4_prefix 33) \<and>
   \<not> isl (get_ipv6_info (\<lambda>s. Some [0x20, 0x01, 0x0d, 0xb8, 0, 0, 0, 0, 0, 0, 0, 0, 0, 0, 0, 1])
     expand_ipv6 (\<lambda>a. None) ''2001:db8::1'' 33 False)"
proof -
  have e: "cidr_expand ''10.0.0.1'' = ''10.0.0.1''"
    by (simp add: cidr_expand_pad_to_four pad_to_four_eq)
  note inst = prefix_validation_asymmetry
    [where le = True and sh = False and ghba = "\<lambda>a. None"
       and ?s4.0 = "''10.0.0.1''" and ip = "0x0100000A"
       and ?inet_pton4.0 = "\<lambda>s. if s = ''10.0.0.1'' then Some 0x0100000A else None"
       and ?inet_ntop4.0 = "\<lambda>a. ''text''"
       and ?s6.0 = "''2001:db8::1''"
       and ?ip6.0 = "[0x20, 0x01, 0x0d, 0xb8, 0, 0, 0, 0, 0, 0, 0, 0, 0, 0, 0, 1]"
       and ?inet_pton6.0 = "\<lambda>s. Some [0x20, 0x01, 0x0d, 0xb8, 0, 0, 0, 0, 0, 0, 0, 0, 0, 0, 0, 1]"
       and ?inet_ntop6.0 = expand_ipv6]
  show ?thesis
    using inst [of 0] inst [of 129] inst [of 33]
    by (simp add: e)
qed

section \<open>Address space of an IPv6 network\<close>

text \<open>
  C7, at the input where the code leaves the claim. The network \<^verbatim>\<open>2001::\<close> lies in
  \<^verbatim>\<open>2001::/23\<close> with a zero second word, and \<open>ipv6_net_to_type\<close> labels it
  \<^verbatim>\<open>Global Unicast\<close>: the test \<^verbatim>\<open>(word1 & 0xfffe) == 0x2001\<close> compares a value whose lowest
  bit is cleared with an odd constant.
\<close>

theorem ipv6_ietf_protocol_assignments_unreachable:
  "ipv6_net_to_type [0x20, 0x01, 0, 0, 0, 0, 0, 0, 0, 0, 0, 0, 0, 0, 0, 0] = ''Global Unicast'' \<and>
   ipv6_net_to_type [0x20, 0x01, 0, 0, 0, 0, 0, 0, 0, 0, 0, 0, 0, 0, 0, 1] = ''Global Unicast''"
  by code_simp

text \<open>The test can never hold, so the label is returned for no address at all.\<close>

lemma word1_and_fffe: "(w :: u16) AND 0xfffe \<noteq> 0x2001"
proof
  assume "w AND 0xfffe = 0x2001"
  then have "bit (w AND 0xfffe) 0 = bit (0x2001 :: u16) 0"
    by simp
  then show False
    by (simp add: bit_and_iff bit_0 even_and_iff)
qed

lemma ipv6_net_to_type_never_ietf:
  "ipv6_net_to_type net \<noteq> ''IETF Protocol Assignments''"
  by (simp add: ipv6_net_to_type_def Let_def word1_and_fffe)

text \<open>
  C8, at the input where the code leaves the claim. The network \<^verbatim>\<open>100::\<close> (first byte
  \<^verbatim>\<open>0x01\<close>) is labelled \<^verbatim>\<open>Reserved\<close>: the source compares the first 12 bytes with a
  literal that starts with the byte \<^verbatim>\<open>0x10\<close>, which is the network \<^verbatim>\<open>1000::\<close>.
\<close>

theorem ipv6_discard_only_not_matched:
  "ipv6_net_to_type [0x01, 0, 0, 0, 0, 0, 0, 0, 0, 0, 0, 0, 0, 0, 0, 0] = ''Reserved'' \<and>
   ipv6_net_to_type [0x10, 0, 0, 0, 0, 0, 0, 0, 0, 0, 0, 0, 0, 0, 0, 0] =
     ''Discard-Only Address Block''"
  by code_simp

section \<open>The CIDR shorthand\<close>

lemma pad_to_four_idem: "pad_to_four (pad_to_four s) = pad_to_four s"
proof -
  have "3 - count_list (pad_to_four s) (CHR ''.'') = 0"
    by (simp add: pad_to_four_eq count_list_dot_zeros)
  then show ?thesis
    by (simp add: pad_to_four_eq [of "pad_to_four s"])
qed

text \<open>
  C9. With a prefix given (\<open>p \<ge> 0\<close>), the text \<open>get_ipv4_info\<close> hands to the address
  parser is \<open>pad_to_four s\<close>. The code's \<open>cidr_expand\<close> is the specification's padding: a
  text of fewer than four components has four after it and a longer one is left as
  it is. When the parser refuses the padded text, the failure is the bad-address
  diagnostic carrying the padded text. When it accepts it as \<open>ip\<close>, a prefix above 32
  is refused, and otherwise the record is computed from \<open>ip\<close>: prefix, netmask,
  network, broadcast and address space (or, with the host name asked for and not
  found, the failure names the padded text). The result depends on the parser only
  through its answer on the padded text, and it is the result for the padded text
  itself.
\<close>

theorem cidr_shorthand_padding:
  assumes "0 \<le> p"
  shows "cidr_expand s = pad_to_four s \<and>
         (components s < 4 \<longrightarrow> components (pad_to_four s) = 4) \<and>
         (4 \<le> components s \<longrightarrow> pad_to_four s = s) \<and>
         (inet_pton (pad_to_four s) = None \<longrightarrow>
            get_ipv4_info le inet_pton inet_ntop ghba s p sh =
              Inl (Bad_IPv4_address (pad_to_four s))) \<and>
         (\<forall>ip. inet_pton (pad_to_four s) = Some ip \<longrightarrow>
            (32 < p \<longrightarrow>
               get_ipv4_info le inet_pton inet_ntop ghba s p sh = Inl (Bad_IPv4_prefix p)) \<and>
            (p \<le> 32 \<longrightarrow> (sh \<longrightarrow> ghba (AF_INET ip) \<noteq> None) \<longrightarrow>
               (\<exists>info. get_ipv4_info le inet_pton inet_ntop ghba s p sh = Inr info \<and>
                  prefix info = nat p \<and>
                  netmask info = Some (inet_ntop (prefix2mask le p)) \<and>
                  network info = Some (inet_ntop (calc_network le ip p)) \<and>
                  broadcast info = Some (inet_ntop (calc_broadcast le ip p)) \<and>
                  type info = Some (ipv4_net_to_type le (calc_network le ip p)))) \<and>
            (p \<le> 32 \<longrightarrow> sh \<longrightarrow> ghba (AF_INET ip) = None \<longrightarrow>
               get_ipv4_info le inet_pton inet_ntop ghba s p sh =
                 Inl (Cannot_find_hostname (pad_to_four s)))) \<and>
         get_ipv4_info le inet_pton inet_ntop ghba s p sh =
           get_ipv4_info le (\<lambda>text. inet_pton (pad_to_four s)) inet_ntop ghba s p sh \<and>
         get_ipv4_info le inet_pton inet_ntop ghba s p sh =
           get_ipv4_info le inet_pton inet_ntop ghba (pad_to_four s) p sh"
proof -
  have a: "cidr_expand s = pad_to_four s"
    by (rule cidr_expand_pad_to_four)
  have b: "components s < 4 \<longrightarrow> components (pad_to_four s) = 4"
    by (simp add: components_pad_to_four)
  have c: "4 \<le> components s \<longrightarrow> pad_to_four s = s"
    by (simp add: pad_to_four.simps [of s])
  have n: "inet_pton (pad_to_four s) = None \<longrightarrow>
      get_ipv4_info le inet_pton inet_ntop ghba s p sh = Inl (Bad_IPv4_address (pad_to_four s))"
    using assms by (simp add: get_ipv4_info_def cidr_expand_pad_to_four)
  have big: "get_ipv4_info le inet_pton inet_ntop ghba s p sh = Inl (Bad_IPv4_prefix p)"
    if "inet_pton (pad_to_four s) = Some ip" and "32 < p" for ip
    using that assms by (simp add: get_ipv4_info_def cidr_expand_pad_to_four)
  have ok: "\<exists>info. get_ipv4_info le inet_pton inet_ntop ghba s p sh = Inr info \<and>
        prefix info = nat p \<and>
        netmask info = Some (inet_ntop (prefix2mask le p)) \<and>
        network info = Some (inet_ntop (calc_network le ip p)) \<and>
        broadcast info = Some (inet_ntop (calc_broadcast le ip p)) \<and>
        type info = Some (ipv4_net_to_type le (calc_network le ip p))"
    if pt: "inet_pton (pad_to_four s) = Some ip" and le32: "p \<le> 32"
      and hn: "sh \<longrightarrow> ghba (AF_INET ip) \<noteq> None" for ip
  proof -
    from pt have pt': "inet_pton (cidr_expand s) = Some ip"
      by (simp add: cidr_expand_pad_to_four)
    note valid = get_ipv4_info_valid
      [where inet_pton = inet_pton and s = s and ip = ip, OF pt' assms le32]
    show ?thesis
    proof (cases "sh")
      case True
      with hn obtain h where "get_hostname ghba (AF_INET ip) = Some h"
        by (auto simp add: get_hostname_def)
      with True show ?thesis
        by (simp add: valid Let_def)
    next
      case False
      then show ?thesis
        by (simp add: valid Let_def)
    qed
  qed
  have nohost: "get_ipv4_info le inet_pton inet_ntop ghba s p sh =
        Inl (Cannot_find_hostname (pad_to_four s))"
    if pt: "inet_pton (pad_to_four s) = Some ip" and le32: "p \<le> 32"
      and "sh" and "ghba (AF_INET ip) = None" for ip
  proof -
    from pt have pt': "inet_pton (cidr_expand s) = Some ip"
      by (simp add: cidr_expand_pad_to_four)
    note valid = get_ipv4_info_valid
      [where inet_pton = inet_pton and s = s and ip = ip, OF pt' assms le32]
    from that(3,4) show ?thesis
      by (simp add: valid Let_def get_hostname_def cidr_expand_pad_to_four)
  qed
  have d: "get_ipv4_info le inet_pton inet_ntop ghba s p sh =
      get_ipv4_info le (\<lambda>text. inet_pton (pad_to_four s)) inet_ntop ghba s p sh"
    using assms by (simp add: get_ipv4_info_def cidr_expand_pad_to_four)
  have e: "get_ipv4_info le inet_pton inet_ntop ghba s p sh =
      get_ipv4_info le inet_pton inet_ntop ghba (pad_to_four s) p sh"
    using assms by (simp add: get_ipv4_info_def cidr_expand_pad_to_four pad_to_four_idem)
  from a b c n big ok nohost d e show ?thesis by blast
qed

theorem cidr_shorthand_padding_witness:
  "(\<exists>info.
      get_ipv4_info True (\<lambda>s. if s = ''172.0.0.0'' then Some 0x000000AC else None)
        (\<lambda>a. if a = 0x000000FF then ''255.0.0.0''
             else if a = 0x000000AC then ''172.0.0.0''
             else if a = 0xFFFFFFAC then ''172.255.255.255'' else ''other'')
        (\<lambda>a. None) ''172'' 8 False = Inr info \<and>
      prefix info = 8 \<and> netmask info = Some ''255.0.0.0'' \<and>
      network info = Some ''172.0.0.0'' \<and> broadcast info = Some ''172.255.255.255'') \<and>
   get_ipv4_info True (\<lambda>s. None) (\<lambda>a. ''text'') (\<lambda>a. None) ''172'' 8 False =
     Inl (Bad_IPv4_address ''172.0.0.0'') \<and>
   cidr_expand ''172'' = ''172.0.0.0'' \<and>
   components ''172'' = 1 \<and> components ''172.0.0.0'' = 4"
proof -
  have pad: "pad_to_four ''172'' = ''172.0.0.0''"
    by (simp add: pad_to_four_eq eval_nat_numeral)
  have m: "prefix2mask True 8 = 0x000000FF"
    by (simp add: prefix2mask_def htonl_def bswap32_def)
  have n: "calc_network True 0x000000AC 8 = 0x000000AC"
    by (simp add: calc_network_def m)
  have b: "calc_broadcast True 0x000000AC 8 = 0xFFFFFFAC"
    by (simp add: calc_broadcast_def m)
  have p8: "(0::int) \<le> 8" by simp
  have first: "\<exists>info.
      get_ipv4_info True (\<lambda>s. if s = ''172.0.0.0'' then Some 0x000000AC else None)
        (\<lambda>a. if a = 0x000000FF then ''255.0.0.0''
             else if a = 0x000000AC then ''172.0.0.0''
             else if a = 0xFFFFFFAC then ''172.255.255.255'' else ''other'')
        (\<lambda>a. None) ''172'' 8 False = Inr info \<and>
      prefix info = 8 \<and> netmask info = Some ''255.0.0.0'' \<and>
      network info = Some ''172.0.0.0'' \<and> broadcast info = Some ''172.255.255.255''"
    using cidr_shorthand_padding
      [where p = 8 and s = "''172''" and le = True and sh = False and ghba = "\<lambda>a. None"
         and inet_pton = "\<lambda>s. if s = ''172.0.0.0'' then Some 0x000000AC else None"
         and inet_ntop = "\<lambda>a. if a = 0x000000FF then ''255.0.0.0''
             else if a = 0x000000AC then ''172.0.0.0''
             else if a = 0xFFFFFFAC then ''172.255.255.255'' else ''other''", OF p8,
         THEN conjunct2, THEN conjunct2, THEN conjunct2, THEN conjunct2, THEN conjunct1,
         THEN spec, of "0x000000AC"]
    by (auto simp add: pad m n b)
  have second: "get_ipv4_info True (\<lambda>s. None) (\<lambda>a. ''text'') (\<lambda>a. None) ''172'' 8 False =
      Inl (Bad_IPv4_address ''172.0.0.0'')"
    using cidr_shorthand_padding
      [where p = 8 and s = "''172''" and le = True and sh = False and ghba = "\<lambda>a. None"
         and inet_pton = "\<lambda>s. None" and inet_ntop = "\<lambda>a. ''text''", OF p8,
         THEN conjunct2, THEN conjunct2, THEN conjunct2, THEN conjunct1]
    by (simp add: pad)
  have third: "cidr_expand ''172'' = ''172.0.0.0''"
    by (simp add: cidr_expand_pad_to_four pad)
  have c2: "components ''172'' = 1" and c3: "components ''172.0.0.0'' = 4"
    by (simp_all add: components_def)
  from first second third c2 c3 show ?thesis
    by (intro conjI)
qed

section \<open>No prefix and no netmask\<close>

lemma get_ipv4_info_no_prefix:
  assumes "p < 0"
  shows "get_ipv4_info le inet_pton inet_ntop ghba s p sh =
         get_ipv4_info le inet_pton inet_ntop ghba s (- 1) sh"
  using assms by (simp add: get_ipv4_info_def)

lemma get_ipv6_info_no_prefix:
  assumes "p < 0"
  shows "get_ipv6_info inet_pton inet_ntop ghba s p sh =
         get_ipv6_info inet_pton inet_ntop ghba s (- 1) sh"
  using assms by (simp add: get_ipv6_info_def Let_def split: option.splits)

lemma strchr_absent: "c \<notin> set s \<Longrightarrow> strchr s c = None"
  by (simp add: strchr_None)

lemma main_single_ipv4:
  assumes "- 1 \<le> rc" and "CHR ''/'' \<notin> set s" and "CHR '':'' \<notin> set s"
  shows "main le inet_pton4 inet_ntop4 inet_pton6 inet_ntop6 ghba strtol rc opts [s] =
     (if showBroadcast opts \<or> showNetwork opts \<or> showPrefix opts
      then Inl Netmask_or_prefix_expected
      else case get_ipv4_info le inet_pton4 inet_ntop4 ghba s (- 1) (showHostname opts) of
             Inl d \<Rightarrow> Inl (Error_calculating_network d)
           | Inr info \<Rightarrow> Inr info)"
  using assms
  by (simp add: main_def Let_def strchr_absent split: sum.splits)

lemma main_single_ipv6:
  assumes "- 1 \<le> rc" and "CHR ''/'' \<notin> set s" and "CHR '':'' \<in> set s"
  shows "main le inet_pton4 inet_ntop4 inet_pton6 inet_ntop6 ghba strtol rc opts [s] =
     (case get_ipv6_info inet_pton6 inet_ntop6 ghba s (- 1) (showHostname opts) of
        Inl d \<Rightarrow> Inl (Error_calculating_network d)
      | Inr info \<Rightarrow> Inr info)"
  using assms
  by (simp add: main_def Let_def strchr_absent strchr_None split: sum.splits)

text \<open>
  C10, as the code has it. With no prefix (a negative one is passed) and an address
  text the parser accepts, \<open>get_ipv4_info\<close> succeeds with prefix 32 and \<open>get_ipv6_info\<close>
  with prefix 128 (the host name not asked for, or found), and in both the network,
  the host-min and the host-max are the text of the input address. \<open>main\<close>, given the
  address as its only argument, returns that record for an IPv6 address, and for an
  IPv4 address when none of broadcast, network and prefix is asked for; when one of
  them is asked for, \<open>main\<close> refuses the IPv4 query (netmask or prefix expected).
\<close>

theorem single_host_default:
  assumes "p < 0"
    and "inet_pton4 s4 = Some ip" and "sh \<longrightarrow> ghba (AF_INET ip) \<noteq> None"
    and "inet_pton6 s6 = Some ip6" and "length ip6 = 16"
    and "sh \<longrightarrow> ghba (AF_INET6 ip6) \<noteq> None"
    and "CHR ''/'' \<notin> set s4" and "CHR '':'' \<notin> set s4"
    and "CHR ''/'' \<notin> set s6" and "CHR '':'' \<in> set s6"
    and "- 1 \<le> rc" and "showHostname opts = sh"
  shows "(\<exists>info. get_ipv4_info le inet_pton4 inet_ntop4 ghba s4 p sh = Inr info \<and>
            prefix info = 32 \<and> network info = Some (inet_ntop4 ip) \<and>
            hostmin info = Some (inet_ntop4 ip) \<and> hostmax info = Some (inet_ntop4 ip) \<and>
            (\<not> (showBroadcast opts \<or> showNetwork opts \<or> showPrefix opts) \<longrightarrow>
               main le inet_pton4 inet_ntop4 inet_pton6 inet_ntop6 ghba strtol rc opts [s4] =
                 Inr info)) \<and>
         (showBroadcast opts \<or> showNetwork opts \<or> showPrefix opts \<longrightarrow>
            main le inet_pton4 inet_ntop4 inet_pton6 inet_ntop6 ghba strtol rc opts [s4] =
              Inl Netmask_or_prefix_expected) \<and>
         (\<exists>info. get_ipv6_info inet_pton6 inet_ntop6 ghba s6 p sh = Inr info \<and>
            prefix info = 128 \<and> network info = Some (inet_ntop6 ip6) \<and>
            hostmin info = Some (inet_ntop6 ip6) \<and> hostmax info = Some (inet_ntop6 ip6) \<and>
            main le inet_pton4 inet_ntop4 inet_pton6 inet_ntop6 ghba strtol rc opts [s6] =
              Inr info)"
proof -
  have n4: "calc_network le ip 32 = ip"
    by (simp add: calc_network_def prefix2mask_32)
  have v4: "\<exists>info. get_ipv4_info le inet_pton4 inet_ntop4 ghba s4 p sh = Inr info \<and>
            prefix info = 32 \<and> network info = Some (inet_ntop4 ip) \<and>
            hostmin info = Some (inet_ntop4 ip) \<and> hostmax info = Some (inet_ntop4 ip)"
  proof (cases "sh")
    case True
    with assms(3) obtain h where "get_hostname ghba (AF_INET ip) = Some h"
      by (auto simp add: get_hostname_def)
    with True assms(1,2) show ?thesis
      by (simp add: get_ipv4_info_def Let_def info_zero_def n4)
  next
    case False
    with assms(1,2) show ?thesis
      by (simp add: get_ipv4_info_def Let_def info_zero_def n4)
  qed
  from assms(1) have d: "get_ipv6_info inet_pton6 inet_ntop6 ghba s6 p b =
      get_ipv6_info inet_pton6 inet_ntop6 ghba s6 128 b" for b
    by (simp add: get_ipv6_info_def Let_def split: option.splits)
  have n6: "map2 (AND) ip6 (top_bits6 128) = ip6"
    using assms(5) by (simp add: top_bits6_128 map2_and_ones)
  note valid = get_ipv6_info_valid
    [where inet_pton = inet_pton6 and s = s6 and p = 128, OF assms(4,5)]
  have v6: "\<exists>info. get_ipv6_info inet_pton6 inet_ntop6 ghba s6 p sh = Inr info \<and>
            prefix info = 128 \<and> network info = Some (inet_ntop6 ip6) \<and>
            hostmin info = Some (inet_ntop6 ip6) \<and> hostmax info = Some (inet_ntop6 ip6)"
  proof (cases "sh")
    case True
    with assms(6) obtain h where "get_hostname ghba (AF_INET6 ip6) = Some h"
      by (auto simp add: get_hostname_def)
    with True show ?thesis
      by (simp add: d valid Let_def n6)
  next
    case False
    then show ?thesis
      by (simp add: d valid Let_def n6)
  qed
  note m4 = main_single_ipv4 [OF assms(11) assms(7) assms(8)]
  note m6 = main_single_ipv6 [OF assms(11) assms(9) assms(10)]
  note e4 = get_ipv4_info_no_prefix [OF assms(1)]
  note e6 = get_ipv6_info_no_prefix [OF assms(1)]
  from v4 obtain i4 where i4:
      "get_ipv4_info le inet_pton4 inet_ntop4 ghba s4 p sh = Inr i4"
      "prefix i4 = 32" "network i4 = Some (inet_ntop4 ip)"
      "hostmin i4 = Some (inet_ntop4 ip)" "hostmax i4 = Some (inet_ntop4 ip)"
    by blast
  from v6 obtain i6 where i6:
      "get_ipv6_info inet_pton6 inet_ntop6 ghba s6 p sh = Inr i6"
      "prefix i6 = 128" "network i6 = Some (inet_ntop6 ip6)"
      "hostmin i6 = Some (inet_ntop6 ip6)" "hostmax i6 = Some (inet_ntop6 ip6)"
    by blast
  from i4(1) e4 have c4: "get_ipv4_info le inet_pton4 inet_ntop4 ghba s4 (- 1) sh = Inr i4"
    by simp
  from i6(1) e6 have c6: "get_ipv6_info inet_pton6 inet_ntop6 ghba s6 (- 1) sh = Inr i6"
    by simp
  have a: "\<not> (showBroadcast opts \<or> showNetwork opts \<or> showPrefix opts) \<longrightarrow>
      main le inet_pton4 inet_ntop4 inet_pton6 inet_ntop6 ghba strtol rc opts [s4] = Inr i4"
    by (simp add: m4 assms(12) c4)
  have b: "showBroadcast opts \<or> showNetwork opts \<or> showPrefix opts \<longrightarrow>
      main le inet_pton4 inet_ntop4 inet_pton6 inet_ntop6 ghba strtol rc opts [s4] =
        Inl Netmask_or_prefix_expected"
    by (simp add: m4)
  have c: "main le inet_pton4 inet_ntop4 inet_pton6 inet_ntop6 ghba strtol rc opts [s6] = Inr i6"
    by (simp add: m6 assms(12) c6)
  from i4 i6 a b c show ?thesis by blast
qed

theorem single_host_default_witness:
  "(\<exists>info.
      main True (\<lambda>s. if s = ''192.168.1.5'' then Some 0x0501A8C0 else None)
        (\<lambda>a. if a = 0x0501A8C0 then ''192.168.1.5'' else ''other'')
        (\<lambda>s. if s = ''2001:db8::1''
             then Some [0x20, 0x01, 0x0d, 0xb8, 0, 0, 0, 0, 0, 0, 0, 0, 0, 0, 0, 1] else None)
        expand_ipv6 (\<lambda>a. None) (\<lambda>s. (0, s, 0)) (- 1)
        \<lparr>showBroadcast = False, showNetwork = False, showPrefix = False, showHostname = False\<rparr>
        [''192.168.1.5''] = Inr info \<and>
      prefix info = 32 \<and> network info = Some ''192.168.1.5'' \<and>
      hostmin info = Some ''192.168.1.5'' \<and> hostmax info = Some ''192.168.1.5'') \<and>
   (\<exists>info.
      main True (\<lambda>s. if s = ''192.168.1.5'' then Some 0x0501A8C0 else None)
        (\<lambda>a. if a = 0x0501A8C0 then ''192.168.1.5'' else ''other'')
        (\<lambda>s. if s = ''2001:db8::1''
             then Some [0x20, 0x01, 0x0d, 0xb8, 0, 0, 0, 0, 0, 0, 0, 0, 0, 0, 0, 1] else None)
        expand_ipv6 (\<lambda>a. None) (\<lambda>s. (0, s, 0)) (- 1)
        \<lparr>showBroadcast = False, showNetwork = False, showPrefix = False, showHostname = False\<rparr>
        [''2001:db8::1''] = Inr info \<and>
      prefix info = 128 \<and>
      network info = Some ''2001:0db8:0000:0000:0000:0000:0000:0001'' \<and>
      hostmin info = Some ''2001:0db8:0000:0000:0000:0000:0000:0001'' \<and>
      hostmax info = Some ''2001:0db8:0000:0000:0000:0000:0000:0001'')"
proof -
  have e: "expand_ipv6 [0x20, 0x01, 0x0d, 0xb8, 0, 0, 0, 0, 0, 0, 0, 0, 0, 0, 0, 1] =
      ''2001:0db8:0000:0000:0000:0000:0000:0001''"
    by code_simp
  show ?thesis
    using single_host_default
      [where p = "- 1" and le = True and sh = False and ghba = "\<lambda>a. None"
         and rc = "- 1" and strtol = "\<lambda>s. (0, s, 0)"
         and opts = "\<lparr>showBroadcast = False, showNetwork = False, showPrefix = False,
            showHostname = False\<rparr>"
         and ?s4.0 = "''192.168.1.5''" and ip = "0x0501A8C0"
         and ?inet_pton4.0 = "\<lambda>s. if s = ''192.168.1.5'' then Some 0x0501A8C0 else None"
         and ?inet_ntop4.0 = "\<lambda>a. if a = 0x0501A8C0 then ''192.168.1.5'' else ''other''"
         and ?s6.0 = "''2001:db8::1''"
         and ?ip6.0 = "[0x20, 0x01, 0x0d, 0xb8, 0, 0, 0, 0, 0, 0, 0, 0, 0, 0, 0, 1]"
         and ?inet_pton6.0 = "\<lambda>s. if s = ''2001:db8::1''
             then Some [0x20, 0x01, 0x0d, 0xb8, 0, 0, 0, 0, 0, 0, 0, 0, 0, 0, 0, 1] else None"
         and ?inet_ntop6.0 = expand_ipv6]
    by (auto simp add: e)
qed

text \<open>
  The query the claim does not except: the IPv4 address \<^verbatim>\<open>10.0.0.1\<close> alone with the
  network asked for (\<^verbatim>\<open>ipcalc -n 10.0.0.1\<close>). The address parses, no prefix and no
  netmask is given, and \<open>main\<close> fails.
\<close>

theorem single_host_default_main_counterexample:
  "main True (\<lambda>s. if s = ''10.0.0.1'' then Some 0x0100000A else None)
     (\<lambda>a. ''10.0.0.1'') (\<lambda>s. None) expand_ipv6 (\<lambda>a. None) (\<lambda>s. (0, s, 0)) (- 1)
     \<lparr>showBroadcast = False, showNetwork = True, showPrefix = False, showHostname = False\<rparr>
     [''10.0.0.1''] = Inl Netmask_or_prefix_expected"
  by (simp add: main_single_ipv4)

end
